theory Spec2Isabelle
  imports Complex_Main "HOL-Library.Sublist" "HOL-Library.AList"
begin

section \<open>Metric instruments\<close>

text \<open>
  The program (main.go) builds nine instruments of the Prometheus client library, updates
  them in a loop and pushes the registered ones to a push gateway. The library is not part
  of the repository: this section models the operations main.go calls on it. Durations,
  sums and bucket boundaries, which the library keeps as float64, are exact reals here;
  the timestamps that \<open>SetToCurrentTime\<close> stores are rounded as float64 rounds them.
\<close>

record gauge =
  g_name :: string
  g_help :: string
  g_value :: real

definition NewGauge :: "string \<Rightarrow> string \<Rightarrow> gauge" where
  "NewGauge nm hp = \<lparr>g_name = nm, g_help = hp, g_value = 0\<rparr>"

definition gauge_Set :: "real \<Rightarrow> gauge \<Rightarrow> gauge" where
  "gauge_Set v g = g\<lparr>g_value := v\<rparr>"

text \<open>
  A vector instrument keeps one child per tuple of label values, created on the first
  \<open>WithLabelValues\<close> call for that tuple. \<open>with_label_values lvs fresh f cs\<close> applies
  \<open>f\<close> to the child for \<open>lvs\<close>, starting from \<open>fresh\<close> when there is none yet.
  main.go always passes the one value \<open>eft\<close> for the one label \<open>batch\<close>, so the
  library's panic on a wrong number of label values has no branch here.
\<close>

type_synonym 'a children = "(string list \<times> 'a) list"

definition with_label_values ::
  "string list \<Rightarrow> 'a \<Rightarrow> ('a \<Rightarrow> 'a) \<Rightarrow> 'a children \<Rightarrow> 'a children" where
  "with_label_values lvs fresh f cs =
     AList.update lvs (f (case map_of cs lvs of None \<Rightarrow> fresh | Some c \<Rightarrow> c)) cs"

record gauge_vec =
  gv_name :: string
  gv_help :: string
  gv_labels :: "string list"
  gv_children :: "real children"

definition NewGaugeVec :: "string \<Rightarrow> string \<Rightarrow> string list \<Rightarrow> gauge_vec" where
  "NewGaugeVec nm hp ls = \<lparr>gv_name = nm, gv_help = hp, gv_labels = ls, gv_children = []\<rparr>"

definition gauge_vec_Set :: "string list \<Rightarrow> real \<Rightarrow> gauge_vec \<Rightarrow> gauge_vec" where
  "gauge_vec_Set lvs v gv =
     gv\<lparr>gv_children := with_label_values lvs 0 (\<lambda>_. v) (gv_children gv)\<rparr>"

record counter_vec =
  cv_name :: string
  cv_help :: string
  cv_labels :: "string list"
  cv_children :: "nat children"

definition NewCounterVec :: "string \<Rightarrow> string \<Rightarrow> string list \<Rightarrow> counter_vec" where
  "NewCounterVec nm hp ls = \<lparr>cv_name = nm, cv_help = hp, cv_labels = ls, cv_children = []\<rparr>"

definition counter_vec_Inc :: "string list \<Rightarrow> counter_vec \<Rightarrow> counter_vec" where
  "counter_vec_Inc lvs cv =
     cv\<lparr>cv_children := with_label_values lvs 0 (\<lambda>c. c + 1) (cv_children cv)\<rparr>"

text \<open>
  A histogram child counts the observations, sums them and counts them per bucket: an
  observation goes to the first bucket whose upper bound is not below it (the bound is
  inclusive), and to no bucket when it is above every bound.
\<close>

record hist =
  h_count :: nat
  h_sum :: real
  h_counts :: "nat list"

definition hist_Observe :: "real list \<Rightarrow> real \<Rightarrow> hist \<Rightarrow> hist" where
  "hist_Observe bounds v h =
     (let i = length (takeWhile (\<lambda>b. b < v) bounds)
      in \<lparr>h_count = h_count h + 1,
          h_sum = h_sum h + v,
          h_counts = (if i < length bounds then (h_counts h)[i := h_counts h ! i + 1]
                      else h_counts h)\<rparr>)"

record histogram_vec =
  hv_name :: string
  hv_help :: string
  hv_labels :: "string list"
  hv_buckets :: "real list"
  hv_children :: "hist children"

definition NewHistogramVec ::
  "string \<Rightarrow> string \<Rightarrow> real list \<Rightarrow> string list \<Rightarrow> histogram_vec" where
  "NewHistogramVec nm hp bs ls =
     \<lparr>hv_name = nm, hv_help = hp, hv_labels = ls, hv_buckets = bs, hv_children = []\<rparr>"

definition histogram_vec_Observe :: "string list \<Rightarrow> real \<Rightarrow> histogram_vec \<Rightarrow> histogram_vec" where
  "histogram_vec_Observe lvs v hv =
     hv\<lparr>hv_children :=
          with_label_values lvs
            \<lparr>h_count = 0, h_sum = 0, h_counts = replicate (length (hv_buckets hv)) 0\<rparr>
            (hist_Observe (hv_buckets hv) v) (hv_children hv)\<rparr>"

section \<open>The metrics struct and the registry\<close>

record metrics =
  completionTime :: gauge
  successTime :: gauge
  duration :: gauge
  records :: gauge
  info :: gauge_vec
  sql_duration :: histogram_vec
  rec_duration :: histogram_vec
  api_duration :: histogram_vec
  req_processed :: counter_vec

text \<open>
  The registry and the pusher hold pointers to the instruments of the one metrics struct:
  a pointer is the name of the field here, and collecting reads the field's current value.
\<close>

datatype collector =
    P_completionTime | P_successTime | P_duration | P_records
  | P_info | P_sql_duration | P_rec_duration | P_api_duration | P_req_processed

fun fq_name :: "metrics \<Rightarrow> collector \<Rightarrow> string" where
  "fq_name m P_completionTime = g_name (completionTime m)"
| "fq_name m P_successTime = g_name (successTime m)"
| "fq_name m P_duration = g_name (duration m)"
| "fq_name m P_records = g_name (records m)"
| "fq_name m P_info = gv_name (info m)"
| "fq_name m P_sql_duration = hv_name (sql_duration m)"
| "fq_name m P_rec_duration = hv_name (rec_duration m)"
| "fq_name m P_api_duration = hv_name (api_duration m)"
| "fq_name m P_req_processed = cv_name (req_processed m)"

datatype mtype = GAUGE | COUNTER | HISTOGRAM

datatype sample =
    Sample "(string \<times> string) list" real
  | HSample "(string \<times> string) list" nat real "(real \<times> nat) list"

record family =
  fam_name :: string
  fam_help :: string
  fam_type :: mtype
  fam_samples :: "sample list"

definition collect_gauge :: "gauge \<Rightarrow> family list" where
  "collect_gauge g =
     [\<lparr>fam_name = g_name g, fam_help = g_help g, fam_type = GAUGE,
       fam_samples = [Sample [] (g_value g)]\<rparr>]"

text \<open>A vector without children yields no metric family.\<close>

definition collect_vec ::
  "string \<Rightarrow> string \<Rightarrow> mtype \<Rightarrow> string list \<Rightarrow> 'a children \<Rightarrow>
   ((string \<times> string) list \<Rightarrow> 'a \<Rightarrow> sample) \<Rightarrow> family list" where
  "collect_vec nm hp ty ls cs mk =
     (if cs = [] then []
      else [\<lparr>fam_name = nm, fam_help = hp, fam_type = ty,
             fam_samples = map (\<lambda>(lvs, c). mk (zip ls lvs) c) cs\<rparr>])"

fun cumulative :: "nat \<Rightarrow> nat list \<Rightarrow> nat list" where
  "cumulative acc [] = []"
| "cumulative acc (c # cs) = (acc + c) # cumulative (acc + c) cs"

definition hist_sample :: "real list \<Rightarrow> (string \<times> string) list \<Rightarrow> hist \<Rightarrow> sample" where
  "hist_sample bounds lbls h =
     HSample lbls (h_count h) (h_sum h) (zip bounds (cumulative 0 (h_counts h)))"

fun collect :: "metrics \<Rightarrow> collector \<Rightarrow> family list" where
  "collect m P_completionTime = collect_gauge (completionTime m)"
| "collect m P_successTime = collect_gauge (successTime m)"
| "collect m P_duration = collect_gauge (duration m)"
| "collect m P_records = collect_gauge (records m)"
| "collect m P_info =
     collect_vec (gv_name (info m)) (gv_help (info m)) GAUGE (gv_labels (info m))
       (gv_children (info m)) Sample"
| "collect m P_sql_duration =
     collect_vec (hv_name (sql_duration m)) (hv_help (sql_duration m)) HISTOGRAM
       (hv_labels (sql_duration m)) (hv_children (sql_duration m))
       (hist_sample (hv_buckets (sql_duration m)))"
| "collect m P_rec_duration =
     collect_vec (hv_name (rec_duration m)) (hv_help (rec_duration m)) HISTOGRAM
       (hv_labels (rec_duration m)) (hv_children (rec_duration m))
       (hist_sample (hv_buckets (rec_duration m)))"
| "collect m P_api_duration =
     collect_vec (hv_name (api_duration m)) (hv_help (api_duration m)) HISTOGRAM
       (hv_labels (api_duration m)) (hv_children (api_duration m))
       (hist_sample (hv_buckets (api_duration m)))"
| "collect m P_req_processed =
     collect_vec (cv_name (req_processed m)) (cv_help (req_processed m)) COUNTER
       (cv_labels (req_processed m)) (cv_children (req_processed m))
       (\<lambda>lbls c. Sample lbls (real c))"

type_synonym registry = "collector list"

definition NewRegistry :: registry where
  "NewRegistry = []"

text \<open>
  \<open>MustRegister\<close> registers the collectors in order and panics at the first one whose
  name the registry already holds. The panic is the value \<open>Inl\<close>.
\<close>

datatype error = AlreadyRegistered string

fun MustRegister :: "metrics \<Rightarrow> collector list \<Rightarrow> registry \<Rightarrow> error + registry" where
  "MustRegister m [] reg = Inr reg"
| "MustRegister m (c # cs) reg =
     (if fq_name m c \<in> set (map (fq_name m) reg) then Inl (AlreadyRegistered (fq_name m c))
      else MustRegister m cs (reg @ [c]))"

text \<open>Gathering a registry collects its collectors in the order of registration.\<close>

definition Gather :: "metrics \<Rightarrow> registry \<Rightarrow> family list" where
  "Gather m reg = concat (map (collect m) reg)"

section \<open>NewMetrics\<close>

definition NewMetrics :: "registry \<Rightarrow> error + (metrics \<times> registry)" where
  "NewMetrics reg =
     (let m = \<lparr>
        completionTime = NewGauge ''fs_etl_complete_timestamp_seconds''
          ''The timestamp of the last completion of a FS ETL job, successful or not.'',
        successTime = NewGauge ''fs_etl_success_timestamp_seconds''
          ''The timestamp of the last successful completion of a FS ETL job.'',
        duration = NewGauge ''fs_etl_duration_seconds''
          ''The duration of the last FS ETL job in seconds.'',
        records = NewGauge ''fs_etl_records_processed''
          ''The number of records processed in the last FS ETL job.'',
        info = NewGaugeVec ''txn_count''
          ''The number of records discovered to be processed for FS ETL job'' [''batch''],
        sql_duration = NewHistogramVec ''fs_sql_duration_seconds''
          ''Duration of the FS ETL sql requests in seconds''
          [0.1, 0.5, 1, 5, 10, 100] [''batch''],
        rec_duration = NewHistogramVec ''fs_etl_operations_seconds''
          ''Duration of the entire FS ETL requests in seconds''
          [0.001, 0.0015, 0.002, 0.0025, 0.01] [''batch''],
        api_duration = NewHistogramVec ''fs_api_duration_seconds''
          ''Duration of the FS ETL api requests in seconds''
          [0.00001, 0.000015, 0.00002, 0.000025, 0.00003] [''batch''],
        req_processed = NewCounterVec ''fs_etl_operations_total''
          ''The number of records processed for the FS ETL job.'' [''batch'']\<rparr>
      in case MustRegister m
                [P_info, P_sql_duration, P_api_duration, P_rec_duration, P_req_processed] reg of
           Inl x \<Rightarrow> Inl x
         | Inr reg' \<Rightarrow> Inr (m, reg'))"

section \<open>The world outside the program\<close>

text \<open>
  The clocks, the random source and the push gateway are inputs of the model.
  \<open>latency e k\<close> is the number of nanoseconds that pass on the monotonic clock before
  the k-th clock event (a reading of the clock or the end of a sleep), beyond the time
  slept; \<open>wall e k\<close> is what the wall clock shows at the k-th clock event, in
  nanoseconds since 1970: unlike the monotonic clock it may be set, forwards or
  backwards, while the program runs;
  \<open>rand_source e s k\<close> is the k-th raw draw of the generator seeded with \<open>s\<close>;
  \<open>gateway e k\<close> is the outcome of the k-th push attempt (counted from 0): \<open>None\<close>
  when the gateway accepts it, the text of the transport error otherwise.
\<close>

record env =
  latency :: "nat \<Rightarrow> nat"
  wall :: "nat \<Rightarrow> int"
  rand_source :: "int \<Rightarrow> nat \<Rightarrow> nat"
  gateway :: "nat \<Rightarrow> string option"

text \<open>
  A \<open>time.Time\<close> as \<open>time.Now\<close> returns it carries both readings: \<open>UnixNano\<close> is
  the wall clock's, \<open>time.Since\<close> subtracts the monotonic ones.
\<close>

record Time =
  wall_ns :: int
  mono_ns :: int

definition UnixNano :: "Time \<Rightarrow> int" where
  "UnixNano t = wall_ns t"

record pusher_t =
  p_url :: string
  p_job :: string
  p_gatherers :: "registry list"

text \<open>
  \<open>push.New\<close> gives the pusher a registry of its own, for collectors added with
  \<open>Collector\<close>; \<open>Gatherer\<close> appends a registry to gather from. main.go never
  changes \<open>reg\<close> after \<open>NewMetrics\<close>, so the pusher holds its value.
\<close>

definition push_New :: "string \<Rightarrow> string \<Rightarrow> pusher_t" where
  "push_New url job = \<lparr>p_url = url, p_job = job, p_gatherers = [NewRegistry]\<rparr>"

definition push_Gatherer :: "registry \<Rightarrow> pusher_t \<Rightarrow> pusher_t" where
  "push_Gatherer g p = p\<lparr>p_gatherers := p_gatherers p @ [g]\<rparr>"

record request =
  rq_method :: string
  rq_url :: string
  rq_body :: "family list"

record world =
  clock :: int
  ticks :: nat
  rng_seed :: int
  rng_draws :: nat
  stdout :: "string list"
  requests :: "request list"
  var_reg :: registry
  var_m :: metrics
  var_pusher :: pusher_t

definition time_Now :: "env \<Rightarrow> world \<Rightarrow> Time \<times> world" where
  "time_Now e w =
     (let t = clock w + int (latency e (ticks w))
      in (\<lparr>wall_ns = wall e (ticks w), mono_ns = t\<rparr>, w\<lparr>clock := t, ticks := ticks w + 1\<rparr>))"

definition time_Since :: "env \<Rightarrow> Time \<Rightarrow> world \<Rightarrow> int \<times> world" where
  "time_Since e t w = (let (now, w) = time_Now e w in (mono_ns now - mono_ns t, w))"

definition time_Sleep :: "env \<Rightarrow> int \<Rightarrow> world \<Rightarrow> world" where
  "time_Sleep e d w =
     w\<lparr>clock := clock w + max 0 d + int (latency e (ticks w)), ticks := ticks w + 1\<rparr>"

definition Millisecond :: int where
  "Millisecond = 1000000"

definition Seconds :: "int \<Rightarrow> real" where
  "Seconds d = real_of_int d / 1000000000"

definition rand_Seed :: "int \<Rightarrow> world \<Rightarrow> world" where
  "rand_Seed s w = w\<lparr>rng_seed := s, rng_draws := 0\<rparr>"

text \<open>\<open>rand.Intn\<close> is only called with the positive constants 10000, 1000 and 2000.\<close>

definition rand_Intn :: "env \<Rightarrow> int \<Rightarrow> world \<Rightarrow> int \<times> world" where
  "rand_Intn e k w =
     (int (rand_source e (rng_seed w) (rng_draws w) mod nat k),
      w\<lparr>rng_draws := rng_draws w + 1\<rparr>)"

text \<open>The standard output is the list of the lines printed.\<close>

definition Println :: "string \<Rightarrow> world \<Rightarrow> world" where
  "Println l w = w\<lparr>stdout := stdout w @ [l]\<rparr>"

fun show_nat :: "nat \<Rightarrow> string" where
  "show_nat k =
     (if k < 10 then [char_of (48 + k)] else show_nat (k div 10) @ [char_of (48 + k mod 10)])"

declare show_nat.simps [simp del]

definition show_int :: "int \<Rightarrow> string" where
  "show_int i = (if i < 0 then CHR ''-'' # show_nat (nat (- i)) else show_nat (nat i))"

text \<open>
  float64: \<open>rne\<close> rounds to the nearest integer, a tie to the even one, and
  \<open>float64 x\<close> is the nearest number with a significand of 53 bits. Overflow and
  subnormal numbers are left out: the timestamps rounded here are far from both.
\<close>

definition rne :: "real \<Rightarrow> int" where
  "rne x =
     (let f = \<lfloor>x\<rfloor>; d = x - of_int f
      in if d < 1 / 2 then f else if 1 / 2 < d then f + 1 else if even f then f else f + 1)"

definition float64 :: "real \<Rightarrow> real" where
  "float64 x =
     (if x = 0 then 0
      else (let p = \<lfloor>log 2 \<bar>x\<bar>\<rfloor> - 52
            in of_int (rne (x / 2 powr of_int p)) * 2 powr of_int p))"

text \<open>
  \<open>SetToCurrentTime\<close> stores \<open>float64(time.Now().UnixNano()) / 1e9\<close> in the gauge
  chosen by the field update \<open>upd\<close> of the metrics struct: the conversion of the
  nanoseconds rounds, and so does the division.
\<close>

definition unix_float :: "int \<Rightarrow> real" where
  "unix_float n = float64 (float64 (of_int n) / 1000000000)"

definition SetToCurrentTime ::
  "env \<Rightarrow> ((gauge \<Rightarrow> gauge) \<Rightarrow> metrics \<Rightarrow> metrics) \<Rightarrow> world \<Rightarrow> world" where
  "SetToCurrentTime e upd w =
     (let (t, w) = time_Now e w
      in w\<lparr>var_m := upd (gauge_Set (unix_float (UnixNano t))) (var_m w)\<rparr>)"

text \<open>
  \<open>pusher.Add\<close> gathers from the pusher's gatherers and sends the result to the gateway
  with the method POST, which replaces only the metrics of the same name there. The
  world records every request sent; the environment decides whether it arrives.
\<close>

definition pusher_Add :: "env \<Rightarrow> world \<Rightarrow> string option \<times> world" where
  "pusher_Add e w =
     (let p = var_pusher w;
          body = concat (map (Gather (var_m w)) (p_gatherers p));
          rq = \<lparr>rq_method = ''POST'', rq_url = p_url p @ ''/metrics/job/'' @ p_job p,
                rq_body = body\<rparr>
      in (gateway e (length (requests w)), w\<lparr>requests := requests w @ [rq]\<rparr>))"

section \<open>performBackup\<close>

text \<open>The result is the pair of the count and the error (\<open>None\<close> is Go's nil).\<close>

definition performBackup :: "env \<Rightarrow> world \<Rightarrow> (int \<times> string option) \<times> world" where
  "performBackup e w =
     (let (t, w) = time_Now e w;
          w = rand_Seed (UnixNano t) w;
          (k, w) = rand_Intn e 1000 w;
          w = Println (''API Sleeping '' @ show_int k @ '' Millisecond...'') w;
          w = time_Sleep e (k * Millisecond) w
      in ((42, None), w))"

section \<open>mRun\<close>

text \<open>
  The local variables of mRun: \<open>sqlstart\<close> and the \<open>n\<close> declared before the loop, and
  the \<open>start\<close>, \<open>n\<close> and \<open>err\<close> declared in the loop body. The loop body assigns
  each of its three variables before it reads it, so that keeping them from one iteration
  to the next changes nothing. The \<open>err\<close> of \<open>if err := pusher.Add(); err != nil\<close>
  lives in that statement only.
\<close>

record frame =
  sqlstart :: Time
  n_mRun :: int
  start :: Time
  n_iter :: int
  err_iter :: "string option"

type_synonym state = "frame \<times> world"

text \<open>
  A block of statements is the list of their effects on the state, in the order of the
  source; \<open>run\<close> executes a block and \<open>trace\<close> lists the states it goes through.
\<close>

primrec run :: "('s \<Rightarrow> 's) list \<Rightarrow> 's \<Rightarrow> 's" where
  "run [] s = s"
| "run (st # sts) s = run sts (st s)"

primrec trace :: "('s \<Rightarrow> 's) list \<Rightarrow> 's \<Rightarrow> 's list" where
  "trace [] s = []"
| "trace (st # sts) s = st s # trace sts (st s)"

text \<open>The statements of mRun before the loop (lines 134 to 142).\<close>

definition sql_stage :: "env \<Rightarrow> (state \<Rightarrow> state) list" where
  "sql_stage e =
     [\<lambda>(f, w). let (t, w) = time_Now e w in (f\<lparr>sqlstart := t\<rparr>, w),
      \<lambda>(f, w). let (t, w) = time_Now e w in (f, rand_Seed (UnixNano t) w),
      \<lambda>(f, w). let (k, w) = rand_Intn e 10000 w in (f\<lparr>n_mRun := k\<rparr>, w),
      \<lambda>(f, w). (f, Println (''SQL Sleeping '' @ show_int (n_mRun f) @ '' Millisecond...'') w),
      \<lambda>(f, w). (f, time_Sleep e (n_mRun f * Millisecond) w),
      \<lambda>(f, w). let (d, w) = time_Since e (sqlstart f) w
               in (f, w\<lparr>var_m := sql_duration_update
                                   (histogram_vec_Observe [''eft''] (Seconds d)) (var_m w)\<rparr>),
      \<lambda>(f, w). (f, w\<lparr>var_m := info_update (gauge_vec_Set [''eft''] 345234523) (var_m w)\<rparr>)]"

text \<open>
  The statement \<open>if err != nil { ... } else { ... }\<close> of the loop body (lines 157 to
  169): a failure of the stage is printed, a success sets the success-time gauge. The
  call \<open>pusher.Collector(m.successTime)\<close> in the else branch is commented out in the
  source and has no counterpart here.
\<close>

definition stage_outcome :: "env \<Rightarrow> state \<Rightarrow> state" where
  "stage_outcome e =
     (\<lambda>(f, w). case err_iter f of
        Some x \<Rightarrow> (f, Println (''DB backup failed: '' @ x) w)
      | None \<Rightarrow> (f, SetToCurrentTime e successTime_update w))"

text \<open>The statements of the loop body (lines 147 to 189), both pushes included.\<close>

definition loop_body :: "env \<Rightarrow> (state \<Rightarrow> state) list" where
  "loop_body e =
     [\<lambda>(f, w). let (t, w) = time_Now e w in (f\<lparr>start := t\<rparr>, w),
      \<lambda>(f, w). let ((k, x), w) = performBackup e w in (f\<lparr>n_iter := k, err_iter := x\<rparr>, w),
      \<lambda>(f, w). (f, w\<lparr>var_m := records_update (gauge_Set (real_of_int (n_iter f))) (var_m w)\<rparr>),
      \<lambda>(f, w). let (d, w) = time_Since e (start f) w
               in (f, w\<lparr>var_m := api_duration_update
                                   (histogram_vec_Observe [''eft''] (Seconds d)) (var_m w)\<rparr>),
      \<lambda>(f, w). let (d, w) = time_Since e (start f) w
               in (f, w\<lparr>var_m := duration_update (gauge_Set (Seconds d)) (var_m w)\<rparr>),
      \<lambda>(f, w). (f, SetToCurrentTime e completionTime_update w),
      stage_outcome e,
      \<lambda>(f, w). let (r, w) = pusher_Add e w
               in (case r of
                     Some x \<Rightarrow> (f, Println (''Could not push to Pushgateway: '' @ x) w)
                   | None \<Rightarrow> (f, w)),
      \<lambda>(f, w). let (t, w) = time_Now e w in (f, rand_Seed (UnixNano t) w),
      \<lambda>(f, w). let (k, w) = rand_Intn e 2000 w in (f\<lparr>n_iter := k\<rparr>, w),
      \<lambda>(f, w). (f, Println (''Req Sleeping '' @ show_int (n_iter f) @ '' Millisecond...'') w),
      \<lambda>(f, w). (f, time_Sleep e (n_iter f * Millisecond) w),
      \<lambda>(f, w). (f, w\<lparr>var_m := req_processed_update (counter_vec_Inc [''eft'']) (var_m w)\<rparr>),
      \<lambda>(f, w). let (d, w) = time_Since e (start f) w
               in (f, w\<lparr>var_m := rec_duration_update
                                   (histogram_vec_Observe [''eft''] (Seconds d)) (var_m w)\<rparr>),
      \<lambda>(f, w). let (r, w) = pusher_Add e w
               in (case r of
                     Some x \<Rightarrow> (f, Println (''Could not push to Pushgateway: '' @ x) w)
                   | None \<Rightarrow> (f, w))]"

text \<open>\<open>for count := 0; count < todo_count; count++\<close>, from any \<open>count\<close>.\<close>

function for_loop :: "env \<Rightarrow> int \<Rightarrow> int \<Rightarrow> state \<Rightarrow> state" where
  "for_loop e todo count s =
     (if count < todo then for_loop e todo (count + 1) (run (loop_body e) s) else s)"
  by pat_completeness auto
termination
  by (relation "measure (\<lambda>(e, todo, count, s). nat (todo - count))") auto

declare for_loop.simps [simp del]

function for_loop_trace :: "env \<Rightarrow> int \<Rightarrow> int \<Rightarrow> state \<Rightarrow> state list" where
  "for_loop_trace e todo count s =
     (if count < todo
      then trace (loop_body e) s @ for_loop_trace e todo (count + 1) (run (loop_body e) s)
      else [])"
  by pat_completeness auto
termination
  by (relation "measure (\<lambda>(e, todo, count, s). nat (todo - count))") auto

declare for_loop_trace.simps [simp del]

definition frame0 :: frame where
  "frame0 = \<lparr>sqlstart = \<lparr>wall_ns = 0, mono_ns = 0\<rparr>, n_mRun = 0,
             start = \<lparr>wall_ns = 0, mono_ns = 0\<rparr>, n_iter = 0, err_iter = None\<rparr>"

text \<open>
  mRun with the iteration count \<open>todo\<close>; the source fixes it with
  \<open>var todo_count = 40\<close>. \<open>mRun_trace\<close> lists the states after each statement.
\<close>

definition mRun_n :: "env \<Rightarrow> int \<Rightarrow> world \<Rightarrow> world" where
  "mRun_n e todo w = snd (for_loop e todo 0 (run (sql_stage e) (frame0, w)))"

definition mRun_trace :: "env \<Rightarrow> int \<Rightarrow> world \<Rightarrow> state list" where
  "mRun_trace e todo w =
     trace (sql_stage e) (frame0, w) @ for_loop_trace e todo 0 (run (sql_stage e) (frame0, w))"

definition todo_count :: int where
  "todo_count = 40"

definition mRun :: "env \<Rightarrow> world \<Rightarrow> world" where
  "mRun e w = mRun_n e todo_count w"

section \<open>The process\<close>

text \<open>
  The package-level variables \<open>reg\<close>, \<open>m\<close> and \<open>pusher\<close> are initialised in this
  order before main runs; \<open>t0\<close> is the monotonic clock at that moment. A panic of
  \<open>MustRegister\<close> ends the process there.
\<close>

definition package_init :: "int \<Rightarrow> error + world" where
  "package_init t0 =
     (case NewMetrics NewRegistry of
        Inl x \<Rightarrow> Inl x
      | Inr (m, reg) \<Rightarrow>
          Inr \<lparr>clock = t0, ticks = 0, rng_seed = 1, rng_draws = 0, stdout = [], requests = [],
               var_reg = reg, var_m = m,
               var_pusher = push_Gatherer reg (push_New ''http://127.0.0.1:9091'' ''pushgateway'')\<rparr>)"

definition main_n :: "env \<Rightarrow> int \<Rightarrow> int \<Rightarrow> error + world" where
  "main_n e todo t0 =
     (case package_init t0 of Inl x \<Rightarrow> Inl x | Inr w \<Rightarrow> Inr (mRun_n e todo w))"

definition main :: "env \<Rightarrow> int \<Rightarrow> error + world" where
  "main e t0 = (case package_init t0 of Inl x \<Rightarrow> Inl x | Inr w \<Rightarrow> Inr (mRun e w))"

text \<open>
  \<open>at_exit obs r\<close> is what \<open>obs\<close> observes in the world the process leaves when it ends
  normally, and \<open>None\<close> when it panicked.
\<close>

definition at_exit :: "('s \<Rightarrow> 'a) \<Rightarrow> error + 's \<Rightarrow> 'a option" where
  "at_exit obs r = (case r of Inl _ \<Rightarrow> None | Inr w \<Rightarrow> Some (obs w))"

text \<open>The states of the whole process, from the end of the initialisation on.\<close>

definition main_trace :: "env \<Rightarrow> int \<Rightarrow> int \<Rightarrow> error + state list" where
  "main_trace e todo t0 =
     (case package_init t0 of
        Inl x \<Rightarrow> Inl x
      | Inr w \<Rightarrow> Inr ((frame0, w) # mRun_trace e todo w))"

section \<open>What a run leaves to observe\<close>

text \<open>The number of push attempts is the number of requests sent to the gateway.\<close>

definition push_count :: "world \<Rightarrow> nat" where
  "push_count w = length (requests w)"

text \<open>
  The number of printed lines that start with \<open>p\<close>. performBackup prints one line
  starting with \<open>API Sleeping\<close> at each call and nothing else prints such a line, so
  these lines count the calls of the work stage.
\<close>

definition lines_with :: "string \<Rightarrow> world \<Rightarrow> nat" where
  "lines_with p w = length (filter (prefix p) (stdout w))"

text \<open>The value of fs_etl_operations_total for batch = eft (0 before the first Inc).\<close>

definition counter_value :: "world \<Rightarrow> nat" where
  "counter_value w =
     (case map_of (cv_children (req_processed (var_m w))) [''eft''] of
        None \<Rightarrow> 0
      | Some c \<Rightarrow> c)"

text \<open>How many of the first \<open>k\<close> push attempts the gateway refuses.\<close>

definition failed_pushes :: "env \<Rightarrow> nat \<Rightarrow> nat" where
  "failed_pushes e k = length (filter (\<lambda>i. gateway e i \<noteq> None) [0..<k])"

text \<open>The names of the metric families in the requests sent so far.\<close>

definition pushed_names :: "world \<Rightarrow> string list" where
  "pushed_names w = concat (map (\<lambda>rq. map fam_name (rq_body rq)) (requests w))"

text \<open>The bucket boundaries of the three histograms: sql, api, rec.\<close>

definition histogram_buckets :: "world \<Rightarrow> real list list" where
  "histogram_buckets w =
     [hv_buckets (sql_duration (var_m w)), hv_buckets (api_duration (var_m w)),
      hv_buckets (rec_duration (var_m w))]"

text \<open>
  Two environments to run the program in. In both every clock event comes one
  millisecond late and the wall clock, which shows 27 March 2023, 0:00 UTC
  (\<open>boot_time\<close>, in nanoseconds) at the first event, shows one millisecond more at
  each event; in \<open>env0\<close> the gateway accepts every push, in \<open>env_down\<close> it refuses
  every one.
\<close>

definition boot_time :: int where
  "boot_time = 1679875200000000000"

definition env0 :: env where
  "env0 = \<lparr>latency = (\<lambda>_. 1000000), wall = (\<lambda>k. boot_time + 1000000 * int k),
           rand_source = (\<lambda>s k. nat (s mod 7919) + k), gateway = (\<lambda>_. None)\<rparr>"

definition env_down :: env where
  "env_down = \<lparr>latency = (\<lambda>_. 1000000), wall = (\<lambda>k. boot_time + 1000000 * int k),
               rand_source = (\<lambda>s k. nat (s mod 7919) + k),
               gateway = (\<lambda>_. Some ''connection refused'')\<rparr>"

text \<open>
  The invariant that the work stage has not failed: \<open>err\<close> is nil and no failure was
  printed.
\<close>

definition never_failed :: "state \<Rightarrow> bool" where
  "never_failed s \<longleftrightarrow> err_iter (fst s) = None \<and> lines_with ''DB backup failed:'' (snd s) = 0"

text \<open>
  The invariant that every failed push, and nothing else, printed one diagnostic line.
\<close>

definition reported :: "env \<Rightarrow> state \<Rightarrow> bool" where
  "reported e s \<longleftrightarrow>
     lines_with ''Could not push to Pushgateway:'' (snd s) = failed_pushes e (push_count (snd s))"

text \<open>
  The names of the instruments, the registry and the pusher: what decides which families
  a push sends.
\<close>

definition wiring :: "state \<Rightarrow> (collector \<Rightarrow> string) \<times> registry \<times> pusher_t" where
  "wiring s = (fq_name (var_m (snd s)), var_reg (snd s), var_pusher (snd s))"

text \<open>Whether some request sent so far carries a family of this name.\<close>

definition pushes_family :: "string \<Rightarrow> world \<Rightarrow> bool" where
  "pushes_family nm w \<longleftrightarrow> nm \<in> set (pushed_names w)"

text \<open>The invariant that every family sent so far is named after a collector the pusher gathers.\<close>

definition only_gathered :: "(collector \<Rightarrow> string) \<Rightarrow> pusher_t \<Rightarrow> state \<Rightarrow> bool" where
  "only_gathered nm p s \<longleftrightarrow>
     wiring s = (nm, concat (p_gatherers p), p)
     \<and> set (pushed_names (snd s)) \<subseteq> nm ` set (concat (p_gatherers p))"



section \<open>The effect of each primitive on each field of the world\<close>

lemma time_Now_fields [simp]:
  "fst (time_Now e w) =
     \<lparr>wall_ns = wall e (ticks w), mono_ns = clock w + int (latency e (ticks w))\<rparr>"
  "clock (snd (time_Now e w)) = clock w + int (latency e (ticks w))"
  "ticks (snd (time_Now e w)) = ticks w + 1"
  "rng_seed (snd (time_Now e w)) = rng_seed w"
  "rng_draws (snd (time_Now e w)) = rng_draws w"
  "stdout (snd (time_Now e w)) = stdout w"
  "requests (snd (time_Now e w)) = requests w"
  "var_reg (snd (time_Now e w)) = var_reg w"
  "var_m (snd (time_Now e w)) = var_m w"
  "var_pusher (snd (time_Now e w)) = var_pusher w"
  by (simp_all add: time_Now_def Let_def)

lemma time_Since_fields [simp]:
  "fst (time_Since e t w) = clock w + int (latency e (ticks w)) - mono_ns t"
  "clock (snd (time_Since e t w)) = clock w + int (latency e (ticks w))"
  "ticks (snd (time_Since e t w)) = ticks w + 1"
  "rng_seed (snd (time_Since e t w)) = rng_seed w"
  "rng_draws (snd (time_Since e t w)) = rng_draws w"
  "stdout (snd (time_Since e t w)) = stdout w"
  "requests (snd (time_Since e t w)) = requests w"
  "var_reg (snd (time_Since e t w)) = var_reg w"
  "var_m (snd (time_Since e t w)) = var_m w"
  "var_pusher (snd (time_Since e t w)) = var_pusher w"
  by (simp_all add: time_Since_def split_beta)

lemma time_Sleep_fields [simp]:
  "clock (time_Sleep e d w) = clock w + max 0 d + int (latency e (ticks w))"
  "ticks (time_Sleep e d w) = ticks w + 1"
  "rng_seed (time_Sleep e d w) = rng_seed w"
  "rng_draws (time_Sleep e d w) = rng_draws w"
  "stdout (time_Sleep e d w) = stdout w"
  "requests (time_Sleep e d w) = requests w"
  "var_reg (time_Sleep e d w) = var_reg w"
  "var_m (time_Sleep e d w) = var_m w"
  "var_pusher (time_Sleep e d w) = var_pusher w"
  by (simp_all add: time_Sleep_def)

lemma rand_Seed_fields [simp]:
  "clock (rand_Seed x w) = clock w"
  "ticks (rand_Seed x w) = ticks w"
  "rng_seed (rand_Seed x w) = x"
  "rng_draws (rand_Seed x w) = 0"
  "stdout (rand_Seed x w) = stdout w"
  "requests (rand_Seed x w) = requests w"
  "var_reg (rand_Seed x w) = var_reg w"
  "var_m (rand_Seed x w) = var_m w"
  "var_pusher (rand_Seed x w) = var_pusher w"
  by (simp_all add: rand_Seed_def)

lemma rand_Intn_fields [simp]:
  "fst (rand_Intn e k w) = int (rand_source e (rng_seed w) (rng_draws w) mod nat k)"
  "clock (snd (rand_Intn e k w)) = clock w"
  "ticks (snd (rand_Intn e k w)) = ticks w"
  "rng_seed (snd (rand_Intn e k w)) = rng_seed w"
  "rng_draws (snd (rand_Intn e k w)) = rng_draws w + 1"
  "stdout (snd (rand_Intn e k w)) = stdout w"
  "requests (snd (rand_Intn e k w)) = requests w"
  "var_reg (snd (rand_Intn e k w)) = var_reg w"
  "var_m (snd (rand_Intn e k w)) = var_m w"
  "var_pusher (snd (rand_Intn e k w)) = var_pusher w"
  by (simp_all add: rand_Intn_def)

lemma Println_fields [simp]:
  "clock (Println l w) = clock w"
  "ticks (Println l w) = ticks w"
  "rng_seed (Println l w) = rng_seed w"
  "rng_draws (Println l w) = rng_draws w"
  "stdout (Println l w) = stdout w @ [l]"
  "requests (Println l w) = requests w"
  "var_reg (Println l w) = var_reg w"
  "var_m (Println l w) = var_m w"
  "var_pusher (Println l w) = var_pusher w"
  by (simp_all add: Println_def)

lemma SetToCurrentTime_fields [simp]:
  "clock (SetToCurrentTime e upd w) = clock w + int (latency e (ticks w))"
  "ticks (SetToCurrentTime e upd w) = ticks w + 1"
  "rng_seed (SetToCurrentTime e upd w) = rng_seed w"
  "rng_draws (SetToCurrentTime e upd w) = rng_draws w"
  "stdout (SetToCurrentTime e upd w) = stdout w"
  "requests (SetToCurrentTime e upd w) = requests w"
  "var_reg (SetToCurrentTime e upd w) = var_reg w"
  "var_m (SetToCurrentTime e upd w) =
     upd (gauge_Set (unix_float (wall e (ticks w)))) (var_m w)"
  "var_pusher (SetToCurrentTime e upd w) = var_pusher w"
  by (simp_all add: SetToCurrentTime_def UnixNano_def split_beta)

lemma pusher_Add_fields [simp]:
  "fst (pusher_Add e w) = gateway e (length (requests w))"
  "clock (snd (pusher_Add e w)) = clock w"
  "ticks (snd (pusher_Add e w)) = ticks w"
  "rng_seed (snd (pusher_Add e w)) = rng_seed w"
  "rng_draws (snd (pusher_Add e w)) = rng_draws w"
  "stdout (snd (pusher_Add e w)) = stdout w"
  "requests (snd (pusher_Add e w)) =
     requests w @ [\<lparr>rq_method = ''POST'',
                     rq_url = p_url (var_pusher w) @ ''/metrics/job/'' @ p_job (var_pusher w),
                     rq_body = concat (map (Gather (var_m w)) (p_gatherers (var_pusher w)))\<rparr>]"
  "var_reg (snd (pusher_Add e w)) = var_reg w"
  "var_m (snd (pusher_Add e w)) = var_m w"
  "var_pusher (snd (pusher_Add e w)) = var_pusher w"
  by (simp_all add: pusher_Add_def Let_def)

lemma performBackup_fields [simp]:
  "fst (performBackup e w) = (42, None)"
  "clock (snd (performBackup e w)) =
     clock w + int (latency e (ticks w))
       + max 0 (int (rand_source e (wall e (ticks w)) 0 mod 1000) * Millisecond)
       + int (latency e (ticks w + 1))"
  "ticks (snd (performBackup e w)) = ticks w + 2"
  "rng_seed (snd (performBackup e w)) = wall e (ticks w)"
  "rng_draws (snd (performBackup e w)) = 1"
  "stdout (snd (performBackup e w)) =
     stdout w @ [''API Sleeping ''
        @ show_int (int (rand_source e (wall e (ticks w)) 0 mod 1000))
        @ '' Millisecond...'']"
  "requests (snd (performBackup e w)) = requests w"
  "var_reg (snd (performBackup e w)) = var_reg w"
  "var_m (snd (performBackup e w)) = var_m w"
  "var_pusher (snd (performBackup e w)) = var_pusher w"
  by (simp_all add: performBackup_def UnixNano_def split_beta Let_def)


section \<open>Blocks of statements\<close>


lemma run_preserve:
  "list_all (\<lambda>st. \<forall>s. obs (st s) = obs s) sts \<Longrightarrow> obs (run sts s) = obs s"
  by (induction sts arbitrary: s) simp_all

lemma run_invariant:
  "list_all (\<lambda>st. \<forall>s. I s \<longrightarrow> I (st s)) sts \<Longrightarrow> I s \<Longrightarrow> I (run sts s)"
  by (induction sts arbitrary: s) simp_all

lemma run_delta:
  fixes obs :: "'s \<Rightarrow> nat"
  shows "list_all2 (\<lambda>st d. \<forall>s. obs (st s) = obs s + d) sts ds \<Longrightarrow>
    obs (run sts s) = obs s + sum_list ds"
proof (induction sts arbitrary: s ds)
  case Nil
  then show ?case by simp
next
  case (Cons st sts)
  then obtain d ds' where ds: "ds = d # ds'"
    by (cases ds) auto
  with Cons.prems have "\<forall>s. obs (st s) = obs s + d"
    and "list_all2 (\<lambda>st d. \<forall>s. obs (st s) = obs s + d) sts ds'"
    by simp_all
  with Cons.IH [of ds' "st s"] ds show ?case
    by simp
qed

lemma last_trace: "last (s # trace sts s) = run sts s"
  by (induction sts arbitrary: s) simp_all

lemma trace_invariant:
  "list_all (\<lambda>st. \<forall>s. I s \<longrightarrow> I (st s)) sts \<Longrightarrow> I s \<Longrightarrow> list_all I (trace sts s)"
  by (induction sts arbitrary: s) simp_all

lemma trace_successively:
  "list_all (\<lambda>st. \<forall>s. R (obs s) (obs (st s))) sts \<Longrightarrow>
   successively R (map obs (s # trace sts s))"
  by (induction sts arbitrary: s) simp_all

lemma successively_glue:
  "xs \<noteq> [] \<Longrightarrow> successively R xs \<Longrightarrow> successively R (last xs # ys) \<Longrightarrow>
   successively R (xs @ ys)"
  by (cases ys) (simp_all add: successively_append_iff)

lemma for_loop_funpow: "for_loop e todo count s = (run (loop_body e) ^^ nat (todo - count)) s"
proof (induction e todo count s rule: for_loop.induct)
  case (1 e todo count s)
  show ?case
  proof (cases "count < todo")
    case True
    then have "nat (todo - count) = Suc (nat (todo - (count + 1)))"
      by simp
    with True 1 show ?thesis
      by (simp add: for_loop.simps [of e todo count s] funpow_swap1)
  next
    case False
    then show ?thesis
      by (simp add: for_loop.simps [of e todo count s])
  qed
qed

lemma funpow_delta:
  fixes obs :: "'s \<Rightarrow> nat"
  shows "(\<And>s. obs (g s) = obs s + d) \<Longrightarrow> obs ((g ^^ k) s) = obs s + k * d"
  by (induction k) simp_all

lemma funpow_invariant: "(\<And>s. I s \<Longrightarrow> I (g s)) \<Longrightarrow> I s \<Longrightarrow> I ((g ^^ k) s)"
  by (induction k) simp_all

lemma last_glue: "last (s # xs @ ys) = last (last (s # xs) # ys)"
  by (cases ys) (simp_all add: last_append)

lemma last_for_loop_trace: "last (s # for_loop_trace e todo count s) = for_loop e todo count s"
proof (induction e todo count s rule: for_loop_trace.induct)
  case (1 e todo count s)
  show ?case
  proof (cases "count < todo")
    case True
    have "last (s # for_loop_trace e todo count s)
        = last (s # trace (loop_body e) s @ for_loop_trace e todo (count + 1) (run (loop_body e) s))"
      using True by (subst for_loop_trace.simps) simp
    also have "\<dots> = last (run (loop_body e) s # for_loop_trace e todo (count + 1) (run (loop_body e) s))"
      by (simp only: last_glue last_trace)
    also have "\<dots> = for_loop e todo (count + 1) (run (loop_body e) s)"
      using 1 [OF True] .
    also have "\<dots> = for_loop e todo count s"
      using True by (subst (2) for_loop.simps) simp
    finally show ?thesis .
  next
    case False
    then show ?thesis
      by (simp add: for_loop.simps [of e todo count s] for_loop_trace.simps [of e todo count s])
  qed
qed

lemma for_loop_trace_invariant:
  "list_all (\<lambda>st. \<forall>s. I s \<longrightarrow> I (st s)) (loop_body e) \<Longrightarrow> I s \<Longrightarrow>
   list_all I (for_loop_trace e todo count s)"
proof (induction e todo count s rule: for_loop_trace.induct)
  case (1 e todo count s)
  note body = "1.prems"(1) and init = "1.prems"(2)
  show ?case
  proof (cases "count < todo")
    case True
    have a: "list_all I (trace (loop_body e) s)"
      using body init by (rule trace_invariant)
    have b: "I (run (loop_body e) s)"
      using body init by (rule run_invariant)
    have c: "list_all I (for_loop_trace e todo (count + 1) (run (loop_body e) s))"
      using True body b by (rule "1.IH")
    have "for_loop_trace e todo count s
        = trace (loop_body e) s @ for_loop_trace e todo (count + 1) (run (loop_body e) s)"
      using True by (subst for_loop_trace.simps) simp
    with a c show ?thesis
      by (simp only: list_all_append)
  next
    case False
    then show ?thesis
      by (simp add: for_loop_trace.simps [of e todo count s])
  qed
qed

lemma for_loop_trace_successively:
  "list_all (\<lambda>st. \<forall>s. R (obs s) (obs (st s))) (loop_body e) \<Longrightarrow>
   successively R (map obs (s # for_loop_trace e todo count s))"
proof (induction e todo count s rule: for_loop_trace.induct)
  case (1 e todo count s)
  note body = "1.prems"
  show ?case
  proof (cases "count < todo")
    case True
    let ?xs = "map obs (s # trace (loop_body e) s)"
    let ?ys = "map obs (for_loop_trace e todo (count + 1) (run (loop_body e) s))"
    have x: "successively R ?xs"
      using trace_successively [of R obs "loop_body e" s, OF body] .
    have "last ?xs = obs (last (s # trace (loop_body e) s))"
      by (rule last_map) simp
    then have l: "last ?xs = obs (run (loop_body e) s)"
      by (simp only: last_trace)
    have "successively R (obs (run (loop_body e) s) # ?ys)"
      using "1.IH" [OF True body] by (simp only: list.map)
    then have y: "successively R (last ?xs # ?ys)"
      by (simp only: l)
    have ne: "?xs \<noteq> []"
      by simp
    have "successively R (?xs @ ?ys)"
      using ne x y by (rule successively_glue)
    moreover have "for_loop_trace e todo count s
        = trace (loop_body e) s @ for_loop_trace e todo (count + 1) (run (loop_body e) s)"
      using True by (subst for_loop_trace.simps) simp
    ultimately show ?thesis
      by (simp only: list.map map_append append_Cons)
  next
    case False
    then show ?thesis
      by (simp add: for_loop_trace.simps [of e todo count s])
  qed
qed

section \<open>The initial world\<close>

lemma NewMetrics_ok:
  obtains m where
    "NewMetrics NewRegistry =
       Inr (m, [P_info, P_sql_duration, P_api_duration, P_rec_duration, P_req_processed])"
    "cv_children (req_processed m) = []"
    "g_value (successTime m) = 0" "g_value (completionTime m) = 0"
    "map (fq_name m) [P_completionTime, P_successTime, P_duration, P_records, P_info,
        P_sql_duration, P_api_duration, P_rec_duration, P_req_processed] =
       [''fs_etl_complete_timestamp_seconds'', ''fs_etl_success_timestamp_seconds'',
        ''fs_etl_duration_seconds'', ''fs_etl_records_processed'', ''txn_count'',
        ''fs_sql_duration_seconds'', ''fs_api_duration_seconds'', ''fs_etl_operations_seconds'',
        ''fs_etl_operations_total'']"
    "[hv_buckets (sql_duration m), hv_buckets (api_duration m), hv_buckets (rec_duration m)] =
       [[0.1, 0.5, 1, 5, 10, 100], [0.00001, 0.000015, 0.00002, 0.000025, 0.00003],
        [0.001, 0.0015, 0.002, 0.0025, 0.01]]"
  by (simp add: NewMetrics_def NewRegistry_def NewGauge_def NewGaugeVec_def
      NewHistogramVec_def NewCounterVec_def)

lemma package_init_ok:
  obtains w where
    "package_init t0 = Inr w"
    "clock w = t0" "ticks w = 0" "stdout w = []" "requests w = []"
    "var_reg w = [P_info, P_sql_duration, P_api_duration, P_rec_duration, P_req_processed]"
    "p_gatherers (var_pusher w) =
       [[], [P_info, P_sql_duration, P_api_duration, P_rec_duration, P_req_processed]]"
    "NewMetrics NewRegistry = Inr (var_m w, var_reg w)"
proof -
  obtain m where "NewMetrics NewRegistry =
       Inr (m, [P_info, P_sql_duration, P_api_duration, P_rec_duration, P_req_processed])"
    by (rule NewMetrics_ok)
  then show thesis
    by (intro that [of "\<lparr>clock = t0, ticks = 0, rng_seed = 1, rng_draws = 0, stdout = [],
          requests = [],
          var_reg = [P_info, P_sql_duration, P_api_duration, P_rec_duration, P_req_processed],
          var_m = m,
          var_pusher = push_Gatherer
            [P_info, P_sql_duration, P_api_duration, P_rec_duration, P_req_processed]
            (push_New ''http://127.0.0.1:9091'' ''pushgateway'')\<rparr>"])
      (simp_all add: package_init_def push_Gatherer_def push_New_def NewRegistry_def)
qed

section \<open>Counting over a run\<close>

lemma mRun_n_delta:
  fixes obs :: "world \<Rightarrow> nat"
  assumes pre: "list_all (\<lambda>st. \<forall>s. obs (snd (st s)) = obs (snd s)) (sql_stage e)"
    and body: "list_all2 (\<lambda>st d. \<forall>s. obs (snd (st s)) = obs (snd s) + d) (loop_body e) ds"
  shows "obs (mRun_n e todo w) = obs w + nat todo * sum_list ds"
proof -
  have b: "obs (snd (run (loop_body e) s)) = obs (snd s) + sum_list ds" for s
    using run_delta [of "\<lambda>s. obs (snd s)" "loop_body e" ds s, OF body] .
  have p: "obs (snd (run (sql_stage e) s)) = obs (snd s)" for s
    using run_preserve [of "\<lambda>s. obs (snd s)" "sql_stage e" s, OF pre] .
  show ?thesis
    unfolding mRun_n_def for_loop_funpow
    using funpow_delta [of "\<lambda>s. obs (snd s)" "run (loop_body e)" "sum_list ds", OF b]
    by (simp add: p)
qed

lemma mRun_n_invariant:
  assumes pre: "list_all (\<lambda>st. \<forall>s. I s \<longrightarrow> I (st s)) (sql_stage e)"
    and body: "list_all (\<lambda>st. \<forall>s. I s \<longrightarrow> I (st s)) (loop_body e)"
    and init: "I (frame0, w)"
  shows "I (for_loop e todo 0 (run (sql_stage e) (frame0, w)))"
proof -
  have "I (run (sql_stage e) (frame0, w))"
    using pre init by (rule run_invariant)
  moreover have "I s \<Longrightarrow> I (run (loop_body e) s)" for s
    using body by (rule run_invariant)
  ultimately show ?thesis
    unfolding for_loop_funpow by (rule funpow_invariant [rotated])
qed

lemma sql_stage_push_count:
  "list_all (\<lambda>st. \<forall>s. push_count (snd (st s)) = push_count (snd s)) (sql_stage e)"
  by (simp add: sql_stage_def push_count_def split_beta Let_def)

lemma loop_body_push_count:
  "list_all2 (\<lambda>st d. \<forall>s. push_count (snd (st s)) = push_count (snd s) + d)
      (loop_body e) [0, 0, 0, 0, 0, 0, 0, 1, 0, 0, 0, 0, 0, 0, 1]"
  by (simp add: loop_body_def stage_outcome_def push_count_def split_beta Let_def
      split: option.splits)

lemma mRun_n_push_count: "push_count (mRun_n e todo w) = push_count w + 2 * nat todo"
  using mRun_n_delta [of push_count e _ todo w, OF sql_stage_push_count loop_body_push_count]
  by simp

lemma mRun_n_api_lines:
  "lines_with ''API Sleeping '' (mRun_n e todo w) = lines_with ''API Sleeping '' w + nat todo"
proof -
  let ?obs = "lines_with ''API Sleeping ''"
  have "list_all (\<lambda>st. \<forall>s. ?obs (snd (st s)) = ?obs (snd s)) (sql_stage e)"
    by (simp add: sql_stage_def lines_with_def split_beta Let_def)
  moreover have "list_all2 (\<lambda>st d. \<forall>s. ?obs (snd (st s)) = ?obs (snd s) + d)
      (loop_body e) [0, 1, 0, 0, 0, 0, 0, 0, 0, 0, 0, 0, 0, 0, 0]"
    by (simp add: loop_body_def stage_outcome_def lines_with_def split_beta Let_def split: option.splits)
  ultimately show ?thesis
    using mRun_n_delta [of ?obs e _ todo w] by fastforce
qed

lemma sql_stage_counter:
  "list_all (\<lambda>st. \<forall>s. counter_value (snd (st s)) = counter_value (snd s)) (sql_stage e)"
  by (simp add: sql_stage_def split_beta Let_def counter_value_def)

lemma loop_body_counter:
  "list_all2 (\<lambda>st d. \<forall>s. counter_value (snd (st s)) = counter_value (snd s) + d)
      (loop_body e) [0, 0, 0, 0, 0, 0, 0, 0, 0, 0, 0, 0, 1, 0, 0]"
  by (simp add: loop_body_def stage_outcome_def split_beta Let_def counter_value_def counter_vec_Inc_def
      with_label_values_def update_conv' split: option.splits)

lemma mRun_n_counter: "counter_value (mRun_n e todo w) = counter_value w + nat todo"
  using mRun_n_delta [of counter_value e _ todo w, OF sql_stage_counter loop_body_counter]
  by simp

section \<open>The whole process\<close>

lemma main_n_ok:
  obtains w where
    "package_init t0 = Inr w" "main_n e todo t0 = Inr (mRun_n e todo w)"
    "clock w = t0" "ticks w = 0" "stdout w = []" "requests w = []"
    "var_reg w = [P_info, P_sql_duration, P_api_duration, P_rec_duration, P_req_processed]"
    "p_gatherers (var_pusher w) =
       [[], [P_info, P_sql_duration, P_api_duration, P_rec_duration, P_req_processed]]"
    "NewMetrics NewRegistry = Inr (var_m w, var_reg w)"
proof -
  obtain w where w: "package_init t0 = Inr w"
    "clock w = t0" "ticks w = 0" "stdout w = []" "requests w = []"
    "var_reg w = [P_info, P_sql_duration, P_api_duration, P_rec_duration, P_req_processed]"
    "p_gatherers (var_pusher w) =
       [[], [P_info, P_sql_duration, P_api_duration, P_rec_duration, P_req_processed]]"
    "NewMetrics NewRegistry = Inr (var_m w, var_reg w)"
    by (rule package_init_ok)
  then have "main_n e todo t0 = Inr (mRun_n e todo w)"
    by (simp add: main_n_def)
  from that [OF w(1) this w(2-)] show thesis .
qed

lemma main_main_n: "main e t0 = main_n e 40 t0"
  by (simp add: main_def main_n_def mRun_def todo_count_def split: sum.splits)

lemma initial_lines: "stdout w = [] \<Longrightarrow> lines_with p w = 0"
  by (simp add: lines_with_def)

lemma initial_push_count: "requests w = [] \<Longrightarrow> push_count w = 0"
  by (simp add: push_count_def)

lemma initial_counter:
  assumes "NewMetrics NewRegistry = Inr (var_m w, var_reg w)"
  shows "counter_value w = 0"
proof -
  obtain m where "NewMetrics NewRegistry =
       Inr (m, [P_info, P_sql_duration, P_api_duration, P_rec_duration, P_req_processed])"
    and "cv_children (req_processed m) = []"
    by (rule NewMetrics_ok)
  with assms show ?thesis
    by (simp add: counter_value_def)
qed

section \<open>Iterations, push attempts and the counter\<close>

text \<open>
  C1, as the program has it. For every iteration count N, whatever the gateway answers,
  a run calls the work stage N times and makes 2 N push attempts: the statements before
  the loop push nothing, the loop body is executed N times, and nothing follows the
  loop. Of the fifteen statements of the loop body, counted from 0, exactly two push,
  from any state: statement 7, which comes right after the statement on the outcome of
  the stage (statement 6), and statement 14, the last one, which comes after the
  increment of the counter (statement 12, the only one that changes the counter).
\<close>

theorem C1_two_pushes_per_iteration:
  "at_exit (\<lambda>w. (lines_with ''API Sleeping '' w, push_count w)) (main_n e N t0)
     = Some (nat N, 2 * nat N)
   \<and> mRun_n e N w = snd ((run (loop_body e) ^^ nat N) (run (sql_stage e) (frame0, w)))
   \<and> push_count (snd (run (loop_body e) s)) = push_count (snd s) + 2
   \<and> list_all (\<lambda>st. \<forall>s. push_count (snd (st s)) = push_count (snd s)) (sql_stage e)
   \<and> list_all2 (\<lambda>st d. \<forall>s. push_count (snd (st s)) = push_count (snd s) + d)
         (loop_body e) [0, 0, 0, 0, 0, 0, 0, 1, 0, 0, 0, 0, 0, 0, 1]
   \<and> loop_body e ! 6 = stage_outcome e
   \<and> list_all2 (\<lambda>st d. \<forall>s. counter_value (snd (st s)) = counter_value (snd s) + d)
         (loop_body e) [0, 0, 0, 0, 0, 0, 0, 0, 0, 0, 0, 0, 1, 0, 0]"
proof -
  obtain w0 where "main_n e N t0 = Inr (mRun_n e N w0)" "stdout w0 = []" "requests w0 = []"
    by (rule main_n_ok)
  then have "at_exit (\<lambda>w. (lines_with ''API Sleeping '' w, push_count w)) (main_n e N t0)
     = Some (nat N, 2 * nat N)"
    by (simp add: at_exit_def mRun_n_api_lines mRun_n_push_count initial_lines
        initial_push_count)
  moreover have "mRun_n e N w = snd ((run (loop_body e) ^^ nat N) (run (sql_stage e) (frame0, w)))"
    by (simp add: mRun_n_def for_loop_funpow)
  moreover have "push_count (snd (run (loop_body e) s)) = push_count (snd s) + 2"
    using run_delta [of "\<lambda>s. push_count (snd s)" "loop_body e" _ s, OF loop_body_push_count]
    by simp
  moreover have "loop_body e ! 6 = stage_outcome e"
    by (simp add: loop_body_def)
  moreover note sql_stage_push_count [of e] loop_body_push_count [of e] loop_body_counter [of e]
  ultimately show ?thesis
    by (intro conjI)
qed

text \<open>
  The N + 1 push attempts of the specification, the last one after the loop, are not
  what the program does: with its 40 iterations it makes 80 push attempts, not 41, and a
  run of no iteration makes none.
\<close>

theorem C1_counterexample:
  "at_exit push_count (main env0 boot_time) = Some 80
   \<and> at_exit push_count (main env0 boot_time) \<noteq> Some (40 + 1)
   \<and> at_exit push_count (main_n env0 0 boot_time) = Some 0"
proof -
  have "at_exit push_count (main_n env0 N boot_time) = Some (2 * nat N)" for N
  proof -
    obtain w0 where "main_n env0 N boot_time = Inr (mRun_n env0 N w0)" "requests w0 = []"
      by (rule main_n_ok)
    then show ?thesis
      by (simp add: at_exit_def mRun_n_push_count initial_push_count)
  qed
  from this [of 40] this [of 0] show ?thesis
    by (simp add: main_main_n)
qed

text \<open>
  C4. The counter fs_etl_operations_total for batch = eft is 0 when the process starts,
  every execution of the loop body adds exactly 1 to it, from any state, and after a run
  of N iterations it is N.
\<close>

theorem C4_counter_equals_iterations:
  "at_exit counter_value (package_init t0) = Some 0
   \<and> at_exit counter_value (main_n e N t0) = Some (nat N)
   \<and> (\<forall>s. counter_value (snd (run (loop_body e) s)) = counter_value (snd s) + 1)"
proof -
  obtain w0 where w0: "package_init t0 = Inr w0" "main_n e N t0 = Inr (mRun_n e N w0)"
    "NewMetrics NewRegistry = Inr (var_m w0, var_reg w0)"
    by (rule main_n_ok)
  from w0 have "at_exit counter_value (package_init t0) = Some 0"
    by (simp add: at_exit_def initial_counter)
  moreover from w0 have "at_exit counter_value (main_n e N t0) = Some (nat N)"
    by (simp add: at_exit_def initial_counter mRun_n_counter)
  moreover have "counter_value (snd (run (loop_body e) s)) = counter_value (snd s) + 1" for s
    using run_delta [of "\<lambda>s. counter_value (snd s)" "loop_body e" _ s, OF loop_body_counter]
    by simp
  ultimately show ?thesis
    by blast
qed

text \<open>
  C9. The iteration count is the constant 40: whatever the clock, the random source and
  the gateway do, the program runs the loop 40 times, calls the work stage 40 times and
  leaves the counter at 40.
\<close>

theorem C9_forty_iterations:
  "todo_count = 40
   \<and> main e t0 = main_n e 40 t0
   \<and> at_exit (\<lambda>w. (lines_with ''API Sleeping '' w, counter_value w)) (main e t0) = Some (40, 40)"
proof -
  obtain w0 where w0: "main_n e 40 t0 = Inr (mRun_n e 40 w0)" "stdout w0 = []"
    "NewMetrics NewRegistry = Inr (var_m w0, var_reg w0)"
    by (rule main_n_ok)
  then have "at_exit (\<lambda>w. (lines_with ''API Sleeping '' w, counter_value w)) (main_n e 40 t0)
      = Some (40, 40)"
    by (simp add: at_exit_def initial_counter mRun_n_counter mRun_n_api_lines initial_lines)
  then show ?thesis
    by (simp add: main_main_n todo_count_def)
qed

section \<open>Invariants of a run\<close>

lemma mRun_trace_invariant:
  assumes pre: "list_all (\<lambda>st. \<forall>s. I s \<longrightarrow> I (st s)) (sql_stage e)"
    and body: "list_all (\<lambda>st. \<forall>s. I s \<longrightarrow> I (st s)) (loop_body e)"
    and init: "I (frame0, w)"
  shows "list_all I ((frame0, w) # mRun_trace e todo w)"
proof -
  have "list_all I (trace (sql_stage e) (frame0, w))"
    using pre init by (rule trace_invariant)
  moreover have "I (run (sql_stage e) (frame0, w))"
    using pre init by (rule run_invariant)
  then have "list_all I (for_loop_trace e todo 0 (run (sql_stage e) (frame0, w)))"
    using body by (intro for_loop_trace_invariant)
  ultimately show ?thesis
    using init by (simp add: mRun_trace_def)
qed

lemma main_trace_ok:
  obtains w where
    "package_init t0 = Inr w" "main_trace e todo t0 = Inr ((frame0, w) # mRun_trace e todo w)"
    "clock w = t0" "ticks w = 0" "stdout w = []" "requests w = []"
    "var_reg w = [P_info, P_sql_duration, P_api_duration, P_rec_duration, P_req_processed]"
    "p_gatherers (var_pusher w) =
       [[], [P_info, P_sql_duration, P_api_duration, P_rec_duration, P_req_processed]]"
    "NewMetrics NewRegistry = Inr (var_m w, var_reg w)"
proof -
  obtain w where w: "package_init t0 = Inr w"
    "clock w = t0" "ticks w = 0" "stdout w = []" "requests w = []"
    "var_reg w = [P_info, P_sql_duration, P_api_duration, P_rec_duration, P_req_processed]"
    "p_gatherers (var_pusher w) =
       [[], [P_info, P_sql_duration, P_api_duration, P_rec_duration, P_req_processed]]"
    "NewMetrics NewRegistry = Inr (var_m w, var_reg w)"
    by (rule package_init_ok)
  then have "main_trace e todo t0 = Inr ((frame0, w) # mRun_trace e todo w)"
    by (simp add: main_trace_def)
  from that [OF w(1) this w(2-)] show thesis .
qed

section \<open>The work stage never fails\<close>

lemma sql_stage_never_failed:
  "list_all (\<lambda>st. \<forall>s. never_failed s \<longrightarrow> never_failed (st s)) (sql_stage e)"
  by (simp add: sql_stage_def never_failed_def lines_with_def split_beta Let_def)

lemma loop_body_never_failed:
  "list_all (\<lambda>st. \<forall>s. never_failed s \<longrightarrow> never_failed (st s)) (loop_body e)"
  by (simp add: loop_body_def stage_outcome_def never_failed_def lines_with_def split_beta Let_def
      split: option.splits)

text \<open>
  C6. performBackup returns the count 42 and the error nil from every world. In a run,
  \<open>err\<close> is nil in every state the process goes through, so the branch of
  \<open>if err != nil\<close> that prints "DB backup failed:" is never taken and no such line is
  ever printed.
\<close>

theorem C6_work_stage_always_succeeds:
  "fst (performBackup e w) = (42, None)
   \<and> at_exit (\<lambda>tr. set (map (\<lambda>s. err_iter (fst s)) tr) \<subseteq> {None}) (main_trace e N t0) = Some True
   \<and> at_exit (lines_with ''DB backup failed:'') (main_n e N t0) = Some 0"
proof -
  obtain w0 where w0: "main_trace e N t0 = Inr ((frame0, w0) # mRun_trace e N w0)"
    "main_n e N t0 = Inr (mRun_n e N w0)" "stdout w0 = []"
    by (rule main_trace_ok [of t0 e N]) (simp add: main_n_def)
  then have init: "never_failed (frame0, w0)"
    by (simp add: never_failed_def frame0_def lines_with_def)
  have "list_all never_failed ((frame0, w0) # mRun_trace e N w0)"
    using sql_stage_never_failed loop_body_never_failed init by (rule mRun_trace_invariant)
  then have "set (map (\<lambda>s. err_iter (fst s)) ((frame0, w0) # mRun_trace e N w0)) \<subseteq> {None}"
    by (auto simp add: list_all_iff never_failed_def)
  moreover have "never_failed (for_loop e N 0 (run (sql_stage e) (frame0, w0)))"
    using sql_stage_never_failed loop_body_never_failed init by (rule mRun_n_invariant)
  then have "lines_with ''DB backup failed:'' (mRun_n e N w0) = 0"
    by (simp add: never_failed_def mRun_n_def)
  ultimately show ?thesis
    using w0 by (simp add: at_exit_def)
qed

section \<open>Failed pushes\<close>

lemma failed_pushes_Suc:
  "failed_pushes e (Suc k) = failed_pushes e k + (if gateway e k = None then 0 else 1)"
  by (simp add: failed_pushes_def)

lemma sql_stage_reported:
  "list_all (\<lambda>st. \<forall>s. reported e s \<longrightarrow> reported e (st s)) (sql_stage e)"
  by (simp add: sql_stage_def reported_def lines_with_def push_count_def split_beta Let_def)

lemma loop_body_reported:
  "list_all (\<lambda>st. \<forall>s. reported e s \<longrightarrow> reported e (st s)) (loop_body e)"
  by (simp add: loop_body_def stage_outcome_def reported_def lines_with_def push_count_def split_beta Let_def
      failed_pushes_Suc split: option.splits)

lemma mRun_n_reported:
  assumes "stdout w = []" "requests w = []"
  shows "lines_with ''Could not push to Pushgateway:'' (mRun_n e todo w)
    = failed_pushes e (2 * nat todo)"
proof -
  from assms have "reported e (frame0, w)"
    by (simp add: reported_def lines_with_def push_count_def failed_pushes_def)
  with sql_stage_reported loop_body_reported
  have "reported e (for_loop e todo 0 (run (sql_stage e) (frame0, w)))"
    by (rule mRun_n_invariant)
  then show ?thesis
    using assms by (simp add: reported_def mRun_n_def [symmetric] mRun_n_push_count initial_push_count)
qed

lemma failed_pushes_all: "(\<And>i. gateway e i \<noteq> None) \<Longrightarrow> failed_pushes e k = k"
  by (simp add: failed_pushes_def)

text \<open>
  C5, as the program has it. A push that fails is reported by one line and changes
  nothing else: for every gateway behaviour the run ends normally after N calls of the
  work stage and 2 N push attempts (none is repeated), and the number of lines "Could
  not push to Pushgateway:" is the number of the attempts that failed. When every
  attempt fails, these are 2 N lines.
\<close>

theorem C5_push_failures_reported_not_fatal:
  "at_exit (\<lambda>w. (lines_with ''API Sleeping '' w, push_count w,
                  lines_with ''Could not push to Pushgateway:'' w)) (main_n e N t0)
     = Some (nat N, 2 * nat N, failed_pushes e (2 * nat N))
   \<and> at_exit (lines_with ''Could not push to Pushgateway:'')
        (main_n (e\<lparr>gateway := \<lambda>k. Some (msg k)\<rparr>) N t0) = Some (2 * nat N)"
proof -
  have *: "at_exit (\<lambda>w. (lines_with ''API Sleeping '' w, push_count w,
                  lines_with ''Could not push to Pushgateway:'' w)) (main_n e' N t0)
     = Some (nat N, 2 * nat N, failed_pushes e' (2 * nat N))" for e'
  proof -
    obtain w0 where "main_n e' N t0 = Inr (mRun_n e' N w0)" "stdout w0 = []" "requests w0 = []"
      by (rule main_n_ok)
    then show ?thesis
      by (simp add: at_exit_def mRun_n_api_lines mRun_n_push_count mRun_n_reported
          initial_lines initial_push_count)
  qed
  have "failed_pushes (e\<lparr>gateway := \<lambda>k. Some (msg k)\<rparr>) (2 * nat N) = 2 * nat N"
    by (rule failed_pushes_all) simp
  with * [of "e\<lparr>gateway := \<lambda>k. Some (msg k)\<rparr>"] * [of e] show ?thesis
    by (auto simp add: at_exit_def split: sum.splits)
qed

text \<open>
  The N + 1 lines of the specification are not what the program prints: with a gateway
  that refuses every push and its 40 iterations, it prints 80 such lines, not 41.
\<close>

theorem C5_counterexample:
  "at_exit (lines_with ''Could not push to Pushgateway:'') (main env_down boot_time) = Some 80
   \<and> at_exit (lines_with ''Could not push to Pushgateway:'') (main env_down boot_time)
       \<noteq> Some (40 + 1)"
proof -
  obtain w0 where "main_n env_down 40 boot_time = Inr (mRun_n env_down 40 w0)"
    "stdout w0 = []" "requests w0 = []"
    by (rule main_n_ok)
  moreover have "failed_pushes env_down 80 = 80"
    by (rule failed_pushes_all) (simp add: env_down_def)
  ultimately show ?thesis
    by (simp add: main_main_n at_exit_def mRun_n_reported)
qed

section \<open>What a push sends\<close>

lemma fq_name_updates [simp]:
  "fq_name (completionTime_update (gauge_Set v) m) = fq_name m"
  "fq_name (successTime_update (gauge_Set v) m) = fq_name m"
  "fq_name (duration_update (gauge_Set v) m) = fq_name m"
  "fq_name (records_update (gauge_Set v) m) = fq_name m"
  "fq_name (info_update (gauge_vec_Set l v) m) = fq_name m"
  "fq_name (sql_duration_update (histogram_vec_Observe l v) m) = fq_name m"
  "fq_name (rec_duration_update (histogram_vec_Observe l v) m) = fq_name m"
  "fq_name (api_duration_update (histogram_vec_Observe l v) m) = fq_name m"
  "fq_name (req_processed_update (counter_vec_Inc l) m) = fq_name m"
proof -
  have eq: "(\<And>c. f c = g c) \<Longrightarrow> f = g" for f g :: "collector \<Rightarrow> string"
    by (rule ext)
  show "fq_name (completionTime_update (gauge_Set v) m) = fq_name m"
    by (rule eq, case_tac c) (simp_all add: gauge_Set_def)
  show "fq_name (successTime_update (gauge_Set v) m) = fq_name m"
    by (rule eq, case_tac c) (simp_all add: gauge_Set_def)
  show "fq_name (duration_update (gauge_Set v) m) = fq_name m"
    by (rule eq, case_tac c) (simp_all add: gauge_Set_def)
  show "fq_name (records_update (gauge_Set v) m) = fq_name m"
    by (rule eq, case_tac c) (simp_all add: gauge_Set_def)
  show "fq_name (info_update (gauge_vec_Set l v) m) = fq_name m"
    by (rule eq, case_tac c) (simp_all add: gauge_vec_Set_def)
  show "fq_name (sql_duration_update (histogram_vec_Observe l v) m) = fq_name m"
    by (rule eq, case_tac c) (simp_all add: histogram_vec_Observe_def)
  show "fq_name (rec_duration_update (histogram_vec_Observe l v) m) = fq_name m"
    by (rule eq, case_tac c) (simp_all add: histogram_vec_Observe_def)
  show "fq_name (api_duration_update (histogram_vec_Observe l v) m) = fq_name m"
    by (rule eq, case_tac c) (simp_all add: histogram_vec_Observe_def)
  show "fq_name (req_processed_update (counter_vec_Inc l) m) = fq_name m"
    by (rule eq, case_tac c) (simp_all add: counter_vec_Inc_def)
qed

lemma collect_names: "fam_name ` set (collect m c) \<subseteq> {fq_name m c}"
  by (cases c) (simp_all add: collect_gauge_def collect_vec_def)

lemma Gather_names: "fam_name ` set (Gather m r) \<subseteq> fq_name m ` set r"
proof
  fix x
  assume "x \<in> fam_name ` set (Gather m r)"
  then obtain c fam where c: "c \<in> set r" and fam: "fam \<in> set (collect m c)"
    and x: "x = fam_name fam"
    by (auto simp add: Gather_def)
  from fam have "fam_name fam \<in> fam_name ` set (collect m c)"
    by (rule imageI)
  with collect_names [of m c] have "fam_name fam = fq_name m c"
    by blast
  with c x show "x \<in> fq_name m ` set r"
    by simp
qed

lemma requests_names:
  "fam_name ` set (concat (map (Gather m) rs)) \<subseteq> fq_name m ` set (concat rs)"
proof
  fix x
  assume "x \<in> fam_name ` set (concat (map (Gather m) rs))"
  then obtain r where r: "r \<in> set rs" and "x \<in> fam_name ` set (Gather m r)"
    by auto
  with Gather_names [of m r] have "x \<in> fq_name m ` set r"
    by blast
  with r show "x \<in> fq_name m ` set (concat rs)"
    by auto
qed

lemma pushed_names_Add:
  "set (pushed_names (snd (pusher_Add e w)))
     = set (pushed_names w)
       \<union> fam_name ` set (concat (map (Gather (var_m w)) (p_gatherers (var_pusher w))))"
  by (simp add: pushed_names_def)

lemma pushed_names_prims [simp]:
  "pushed_names (snd (time_Now e w)) = pushed_names w"
  "pushed_names (snd (time_Since e t w)) = pushed_names w"
  "pushed_names (time_Sleep e d w) = pushed_names w"
  "pushed_names (rand_Seed x w) = pushed_names w"
  "pushed_names (snd (rand_Intn e k w)) = pushed_names w"
  "pushed_names (Println l w) = pushed_names w"
  "pushed_names (snd (performBackup e w)) = pushed_names w"
  "pushed_names (SetToCurrentTime e upd w) = pushed_names w"
  "pushed_names (w\<lparr>var_m := m'\<rparr>) = pushed_names w"
  by (simp_all add: pushed_names_def)

lemma push_only_gathered:
  assumes "only_gathered nm p (f, w)"
  shows "only_gathered nm p (f, snd (pusher_Add e w))"
    and "only_gathered nm p (f, Println l (snd (pusher_Add e w)))"
proof -
  from assms have w: "wiring (f, w) = (nm, concat (p_gatherers p), p)"
    and old: "set (pushed_names w) \<subseteq> nm ` set (concat (p_gatherers p))"
    by (simp_all add: only_gathered_def)
  from w have nm: "fq_name (var_m w) = nm" and p: "var_pusher w = p"
    by (simp_all add: wiring_def)
  have new: "set (pushed_names (snd (pusher_Add e w))) \<subseteq> nm ` set (concat (p_gatherers p))"
    using old requests_names [of "var_m w" "p_gatherers p"]
    by (simp add: pushed_names_Add nm p)
  from w show "only_gathered nm p (f, snd (pusher_Add e w))"
    unfolding only_gathered_def using new by (simp add: wiring_def)
  from w show "only_gathered nm p (f, Println l (snd (pusher_Add e w)))"
    unfolding only_gathered_def using new by (simp add: wiring_def)
qed

lemma sql_stage_only_gathered:
  "list_all (\<lambda>st. \<forall>s. only_gathered nm p s \<longrightarrow> only_gathered nm p (st s)) (sql_stage e)"
  by (simp add: sql_stage_def split_beta Let_def)
    (simp add: only_gathered_def wiring_def)

lemma loop_body_only_gathered:
  "list_all (\<lambda>st. \<forall>s. only_gathered nm p s \<longrightarrow> only_gathered nm p (st s)) (loop_body e)"
  by (simp add: loop_body_def stage_outcome_def split_beta Let_def push_only_gathered split: option.splits)
    (simp add: only_gathered_def wiring_def)


lemma initial_names:
  assumes "NewMetrics NewRegistry = Inr (var_m w, var_reg w)"
  shows "fq_name (var_m w) P_info = ''txn_count''"
    and "fq_name (var_m w) P_sql_duration = ''fs_sql_duration_seconds''"
    and "fq_name (var_m w) P_api_duration = ''fs_api_duration_seconds''"
    and "fq_name (var_m w) P_rec_duration = ''fs_etl_operations_seconds''"
    and "fq_name (var_m w) P_req_processed = ''fs_etl_operations_total''"
proof -
  obtain m where m: "NewMetrics NewRegistry =
       Inr (m, [P_info, P_sql_duration, P_api_duration, P_rec_duration, P_req_processed])"
    and names: "map (fq_name m) [P_completionTime, P_successTime, P_duration, P_records, P_info,
        P_sql_duration, P_api_duration, P_rec_duration, P_req_processed] =
       [''fs_etl_complete_timestamp_seconds'', ''fs_etl_success_timestamp_seconds'',
        ''fs_etl_duration_seconds'', ''fs_etl_records_processed'', ''txn_count'',
        ''fs_sql_duration_seconds'', ''fs_api_duration_seconds'', ''fs_etl_operations_seconds'',
        ''fs_etl_operations_total'']"
    by (rule NewMetrics_ok)
  from assms m have "m = var_m w"
    by simp
  with names show "fq_name (var_m w) P_info = ''txn_count''"
    and "fq_name (var_m w) P_sql_duration = ''fs_sql_duration_seconds''"
    and "fq_name (var_m w) P_api_duration = ''fs_api_duration_seconds''"
    and "fq_name (var_m w) P_rec_duration = ''fs_etl_operations_seconds''"
    and "fq_name (var_m w) P_req_processed = ''fs_etl_operations_total''"
    by simp_all
qed

lemma main_n_pushes:
  obtains wf where
    "main_n e todo t0 = Inr wf"
    "var_reg wf = [P_info, P_sql_duration, P_api_duration, P_rec_duration, P_req_processed]"
    "p_gatherers (var_pusher wf) =
       [[], [P_info, P_sql_duration, P_api_duration, P_rec_duration, P_req_processed]]"
    "set (pushed_names wf) \<subseteq>
       {''txn_count'', ''fs_sql_duration_seconds'', ''fs_api_duration_seconds'',
        ''fs_etl_operations_seconds'', ''fs_etl_operations_total''}"
proof -
  obtain w where w: "main_n e todo t0 = Inr (mRun_n e todo w)" "requests w = []"
    "var_reg w = [P_info, P_sql_duration, P_api_duration, P_rec_duration, P_req_processed]"
    "p_gatherers (var_pusher w) =
       [[], [P_info, P_sql_duration, P_api_duration, P_rec_duration, P_req_processed]]"
    "NewMetrics NewRegistry = Inr (var_m w, var_reg w)"
    by (rule main_n_ok)
  let ?nm = "fq_name (var_m w)" and ?p = "var_pusher w"
  let ?sf = "for_loop e todo 0 (run (sql_stage e) (frame0, w))"
  from w have "only_gathered ?nm ?p (frame0, w)"
    by (simp add: only_gathered_def wiring_def pushed_names_def)
  with sql_stage_only_gathered loop_body_only_gathered have "only_gathered ?nm ?p ?sf"
    by (rule mRun_n_invariant)
  then have wf: "var_reg (mRun_n e todo w) = concat (p_gatherers ?p)"
    "var_pusher (mRun_n e todo w) = ?p"
    "set (pushed_names (mRun_n e todo w)) \<subseteq> ?nm ` set (concat (p_gatherers ?p))"
    by (simp_all add: only_gathered_def wiring_def mRun_n_def)
  show thesis
  proof (rule that [of "mRun_n e todo w"])
    show "main_n e todo t0 = Inr (mRun_n e todo w)"
      by (rule w)
    show "var_reg (mRun_n e todo w) =
        [P_info, P_sql_duration, P_api_duration, P_rec_duration, P_req_processed]"
      using wf(1) w(4) by simp
    show "p_gatherers (var_pusher (mRun_n e todo w)) =
        [[], [P_info, P_sql_duration, P_api_duration, P_rec_duration, P_req_processed]]"
      using wf(2) w(4) by simp
    show "set (pushed_names (mRun_n e todo w)) \<subseteq>
       {''txn_count'', ''fs_sql_duration_seconds'', ''fs_api_duration_seconds'',
        ''fs_etl_operations_seconds'', ''fs_etl_operations_total''}"
      using wf(3) w(4) initial_names [OF w(5)] by simp
  qed
qed

text \<open>
  C10. After a run the registry \<open>reg\<close> holds the five vector instruments and nothing
  else, and the pusher gathers from its own empty registry and from \<open>reg\<close>. Hence the
  families in the requests of all push attempts carry names of the five vectors only, and
  never the name of one of the four plain gauges.
\<close>

theorem C10_only_the_vectors_are_pushed:
  "at_exit (\<lambda>w. (var_reg w, p_gatherers (var_pusher w))) (main_n e N t0)
     = Some ([P_info, P_sql_duration, P_api_duration, P_rec_duration, P_req_processed],
             [[], [P_info, P_sql_duration, P_api_duration, P_rec_duration, P_req_processed]])
   \<and> at_exit (\<lambda>w. set (pushed_names w) \<subseteq>
         {''txn_count'', ''fs_sql_duration_seconds'', ''fs_api_duration_seconds'',
          ''fs_etl_operations_seconds'', ''fs_etl_operations_total''}) (main_n e N t0)
       = Some True
   \<and> at_exit (\<lambda>w. set (pushed_names w) \<inter>
         {''fs_etl_complete_timestamp_seconds'', ''fs_etl_success_timestamp_seconds'',
          ''fs_etl_duration_seconds'', ''fs_etl_records_processed''}) (main_n e N t0)
       = Some {}"
proof -
  obtain wf where wf: "main_n e N t0 = Inr wf"
    "var_reg wf = [P_info, P_sql_duration, P_api_duration, P_rec_duration, P_req_processed]"
    "p_gatherers (var_pusher wf) =
       [[], [P_info, P_sql_duration, P_api_duration, P_rec_duration, P_req_processed]]"
    "set (pushed_names wf) \<subseteq>
       {''txn_count'', ''fs_sql_duration_seconds'', ''fs_api_duration_seconds'',
        ''fs_etl_operations_seconds'', ''fs_etl_operations_total''}"
    by (rule main_n_pushes)
  from wf(4) have "set (pushed_names wf) \<inter>
         {''fs_etl_complete_timestamp_seconds'', ''fs_etl_success_timestamp_seconds'',
          ''fs_etl_duration_seconds'', ''fs_etl_records_processed''} = {}"
    by auto
  with wf show ?thesis
    by (simp add: at_exit_def)
qed

text \<open>
  C2, as the program has it. The gauge fs_etl_success_timestamp_seconds is not
  registered with the registry and, the call \<open>pusher.Collector(m.successTime)\<close> being
  commented out, it is not a collector of the pusher either: whatever the stage and the
  gateway do, no request of any push attempt carries it.
\<close>

theorem C2_success_time_is_never_pushed:
  "at_exit (\<lambda>w. (P_successTime \<in> set (var_reg w),
                  P_successTime \<in> set (concat (p_gatherers (var_pusher w))),
                  pushes_family ''fs_etl_success_timestamp_seconds'' w)) (main_n e N t0)
     = Some (False, False, False)"
proof -
  obtain wf where wf: "main_n e N t0 = Inr wf"
    "var_reg wf = [P_info, P_sql_duration, P_api_duration, P_rec_duration, P_req_processed]"
    "p_gatherers (var_pusher wf) =
       [[], [P_info, P_sql_duration, P_api_duration, P_rec_duration, P_req_processed]]"
    "set (pushed_names wf) \<subseteq>
       {''txn_count'', ''fs_sql_duration_seconds'', ''fs_api_duration_seconds'',
        ''fs_etl_operations_seconds'', ''fs_etl_operations_total''}"
    by (rule main_n_pushes)
  from wf(4) have "\<not> pushes_family ''fs_etl_success_timestamp_seconds'' wf"
    by (auto simp add: pushes_family_def)
  with wf show ?thesis
    by (simp add: at_exit_def)
qed

text \<open>
  The ad hoc push of the gauge that the specification describes does not happen: in the
  program's run with a gateway that accepts every push, where the stage succeeds in each
  of the 40 iterations, none of the 80 requests carries the gauge.
\<close>

theorem C2_counterexample:
  "at_exit (pushes_family ''fs_etl_success_timestamp_seconds'') (main env0 boot_time)
     = Some False
   \<and> at_exit push_count (main env0 boot_time) = Some 80"
proof -
  obtain wf where wf: "main_n env0 40 boot_time = Inr wf"
    "set (pushed_names wf) \<subseteq>
       {''txn_count'', ''fs_sql_duration_seconds'', ''fs_api_duration_seconds'',
        ''fs_etl_operations_seconds'', ''fs_etl_operations_total''}"
    by (rule main_n_pushes)
  from wf(2) have "\<not> pushes_family ''fs_etl_success_timestamp_seconds'' wf"
    by (auto simp add: pushes_family_def)
  moreover obtain w0 where "main_n env0 40 boot_time = Inr (mRun_n env0 40 w0)"
    "requests w0 = []"
    by (rule main_n_ok)
  ultimately show ?thesis
    using wf(1) by (simp add: main_main_n at_exit_def mRun_n_push_count initial_push_count)
qed

section \<open>The instruments built by NewMetrics\<close>

text \<open>
  C7. NewMetrics, called on the empty registry, does not panic and returns the nine
  instruments with the names, the label and the bucket boundaries of the specification.
  The boundaries are the decimal literals of the source, as exact reals.
\<close>

theorem C7_metric_names_and_shapes:
  "at_exit (\<lambda>(m, r).
      (map g_name [completionTime m, successTime m, duration m, records m],
       (gv_name (info m), gv_labels (info m)),
       map (\<lambda>h. (hv_name h, hv_labels h, hv_buckets h))
         [sql_duration m, api_duration m, rec_duration m],
       (cv_name (req_processed m), cv_labels (req_processed m))))
     (NewMetrics NewRegistry)
   = Some
      ([''fs_etl_complete_timestamp_seconds'', ''fs_etl_success_timestamp_seconds'',
        ''fs_etl_duration_seconds'', ''fs_etl_records_processed''],
       (''txn_count'', [''batch'']),
       [(''fs_sql_duration_seconds'', [''batch''], [0.1, 0.5, 1, 5, 10, 100]),
        (''fs_api_duration_seconds'', [''batch''],
           [0.00001, 0.000015, 0.00002, 0.000025, 0.00003]),
        (''fs_etl_operations_seconds'', [''batch''], [0.001, 0.0015, 0.002, 0.0025, 0.01])],
       (''fs_etl_operations_total'', [''batch'']))
   \<and> at_exit var_m (package_init t0) = at_exit fst (NewMetrics NewRegistry)"
  by (simp add: at_exit_def package_init_def NewMetrics_def NewRegistry_def NewGauge_def
      NewGaugeVec_def NewHistogramVec_def NewCounterVec_def)

section \<open>The counter and the buckets along a run\<close>

lemma mRun_trace_successively:
  assumes pre: "list_all (\<lambda>st. \<forall>s. R (obs s) (obs (st s))) (sql_stage e)"
    and body: "list_all (\<lambda>st. \<forall>s. R (obs s) (obs (st s))) (loop_body e)"
  shows "successively R (map obs ((frame0, w) # mRun_trace e todo w))"
proof -
  let ?xs = "map obs ((frame0, w) # trace (sql_stage e) (frame0, w))"
  let ?s1 = "run (sql_stage e) (frame0, w)"
  let ?ys = "map obs (for_loop_trace e todo 0 ?s1)"
  have x: "successively R ?xs"
    using trace_successively [of R obs "sql_stage e" "(frame0, w)", OF pre] .
  have "last ?xs = obs (last ((frame0, w) # trace (sql_stage e) (frame0, w)))"
    by (rule last_map) simp
  then have l: "last ?xs = obs ?s1"
    by (simp only: last_trace)
  have "successively R (obs ?s1 # ?ys)"
    using for_loop_trace_successively [of R obs e ?s1 todo 0, OF body] by (simp only: list.map)
  then have y: "successively R (last ?xs # ?ys)"
    by (simp only: l)
  have ne: "?xs \<noteq> []"
    by simp
  have "successively R (?xs @ ?ys)"
    using ne x y by (rule successively_glue)
  then show ?thesis
    by (simp only: mRun_trace_def list.map map_append append_Cons)
qed

lemma last_mRun_trace: "snd (last ((frame0, w) # mRun_trace e todo w)) = mRun_n e todo w"
proof -
  have "last ((frame0, w) # mRun_trace e todo w)
      = last (last ((frame0, w) # trace (sql_stage e) (frame0, w))
          # for_loop_trace e todo 0 (run (sql_stage e) (frame0, w)))"
    by (simp only: mRun_trace_def last_glue)
  then show ?thesis
    by (simp only: last_trace last_for_loop_trace mRun_n_def)
qed

lemma sql_stage_counter_step:
  "list_all (\<lambda>st. \<forall>s. counter_value (snd (st s)) = counter_value (snd s)
      \<or> counter_value (snd (st s)) = counter_value (snd s) + 1) (sql_stage e)"
  by (simp add: sql_stage_def split_beta Let_def counter_value_def)

lemma loop_body_counter_step:
  "list_all (\<lambda>st. \<forall>s. counter_value (snd (st s)) = counter_value (snd s)
      \<or> counter_value (snd (st s)) = counter_value (snd s) + 1) (loop_body e)"
  by (simp add: loop_body_def stage_outcome_def split_beta Let_def counter_value_def
      counter_vec_Inc_def with_label_values_def update_conv' split: option.splits)

lemma sql_stage_buckets:
  "list_all (\<lambda>st. \<forall>s. histogram_buckets (snd s) = bs \<longrightarrow> histogram_buckets (snd (st s)) = bs)
     (sql_stage e)"
  by (simp add: sql_stage_def split_beta Let_def histogram_buckets_def
      histogram_vec_Observe_def)

lemma loop_body_buckets:
  "list_all (\<lambda>st. \<forall>s. histogram_buckets (snd s) = bs \<longrightarrow> histogram_buckets (snd (st s)) = bs)
     (loop_body e)"
  by (simp add: loop_body_def stage_outcome_def split_beta Let_def histogram_buckets_def
      histogram_vec_Observe_def split: option.splits)

lemma initial_buckets:
  assumes "NewMetrics NewRegistry = Inr (var_m w, var_reg w)"
  shows "histogram_buckets w =
       [[0.1, 0.5, 1, 5, 10, 100], [0.00001, 0.000015, 0.00002, 0.000025, 0.00003],
        [0.001, 0.0015, 0.002, 0.0025, 0.01]]"
proof -
  obtain m where m: "NewMetrics NewRegistry =
       Inr (m, [P_info, P_sql_duration, P_api_duration, P_rec_duration, P_req_processed])"
    and bs: "[hv_buckets (sql_duration m), hv_buckets (api_duration m),
        hv_buckets (rec_duration m)] =
       [[0.1, 0.5, 1, 5, 10, 100], [0.00001, 0.000015, 0.00002, 0.000025, 0.00003],
        [0.001, 0.0015, 0.002, 0.0025, 0.01]]"
    by (rule NewMetrics_ok)
  from assms m have "m = var_m w"
    by simp
  with bs show ?thesis
    by (simp only: histogram_buckets_def)
qed

text \<open>
  C8. Along the states a run goes through, from the end of the initialisation to the
  exit, each statement leaves the counter fs_etl_operations_total as it is or adds 1 to
  it, so the counter never decreases, and the bucket boundaries of the three histograms
  are in every state those given at construction. The last of these states is the one
  the process exits in.
\<close>

theorem C8_counter_monotone_buckets_fixed:
  "at_exit (\<lambda>tr. successively (\<lambda>a b. b = a \<or> b = a + 1) (map (\<lambda>s. counter_value (snd s)) tr)
                 \<and> sorted (map (\<lambda>s. counter_value (snd s)) tr))
     (main_trace e N t0) = Some True
   \<and> at_exit (\<lambda>tr. set (map (\<lambda>s. histogram_buckets (snd s)) tr)) (main_trace e N t0)
       = Some {[[0.1, 0.5, 1, 5, 10, 100], [0.00001, 0.000015, 0.00002, 0.000025, 0.00003],
               [0.001, 0.0015, 0.002, 0.0025, 0.01]]}
   \<and> at_exit (\<lambda>tr. snd (last tr)) (main_trace e N t0) = at_exit id (main_n e N t0)"
proof -
  obtain w0 where w0: "main_trace e N t0 = Inr ((frame0, w0) # mRun_trace e N w0)"
    "main_n e N t0 = Inr (mRun_n e N w0)"
    "NewMetrics NewRegistry = Inr (var_m w0, var_reg w0)"
    by (rule main_trace_ok [of t0 e N]) (simp add: main_n_def)
  let ?tr = "(frame0, w0) # mRun_trace e N w0"
  let ?bs = "[[0.1, 0.5, 1, 5, 10, 100], [0.00001, 0.000015, 0.00002, 0.000025, 0.00003],
               [0.001, 0.0015, 0.002, 0.0025, 0.01]] :: real list list"
  let ?cs = "map (\<lambda>s. counter_value (snd s)) ?tr"
  have step: "successively (\<lambda>a b. b = a \<or> b = a + 1) ?cs"
    using sql_stage_counter_step loop_body_counter_step
    by (rule mRun_trace_successively [of "\<lambda>a b. b = a \<or> b = a + 1"
          "\<lambda>s. counter_value (snd s)" e w0 N])
  then have "successively (\<le>) ?cs"
    by (rule successively_mono) auto
  then have mono: "sorted ?cs"
    by (simp only: successively_conv_sorted_wrt [OF transp_on_le])
  have "list_all (\<lambda>s. histogram_buckets (snd s) = ?bs) ?tr"
    using sql_stage_buckets loop_body_buckets
    by (rule mRun_trace_invariant) (simp add: initial_buckets [OF w0(3)])
  then have "set (map (\<lambda>s. histogram_buckets (snd s)) ?tr) \<subseteq> {?bs}"
    by (auto simp only: list_all_iff set_map)
  then have bs: "set (map (\<lambda>s. histogram_buckets (snd s)) ?tr) = {?bs}"
    by (simp only: subset_singleton_iff) simp
  from step mono bs w0 show ?thesis
    by (simp only: at_exit_def sum.case last_mRun_trace id_apply simp_thms)
qed

section \<open>The success-time gauge\<close>
















text \<open>The float64 of a number between two consecutive powers of 2.\<close>

lemma float64_binade:
  assumes "2 powr of_int k \<le> \<bar>x\<bar>" "\<bar>x\<bar> < 2 powr of_int (k + 1)"
  shows "float64 x = of_int (rne (x / 2 powr of_int (k - 52))) * 2 powr of_int (k - 52)"
proof -
  have pos: "0 < \<bar>x\<bar>"
    using assms(1) powr_gt_zero [of 2 "of_int k"] by linarith
  then have "\<lfloor>log 2 \<bar>x\<bar>\<rfloor> = k"
    using assms by (simp add: floor_log_eq_powr_iff)
  with pos show ?thesis
    by (simp add: float64_def Let_def)
qed



text \<open>Two readings 40 nanoseconds apart are stored as the same float64.\<close>

lemma unix_float_merges: "unix_float 1679875200400000040 = unix_float 1679875200400000000"
proof -
  have "float64 1679875200400000040 = 1679875200400000000"
    using float64_binade [of 60 1679875200400000040] by (simp add: rne_def)
  moreover have "float64 1679875200400000000 = 1679875200400000000"
    using float64_binade [of 60 1679875200400000000] by (simp add: rne_def)
  ultimately show ?thesis
    by (simp only: unix_float_def of_int_numeral)
qed




end
